theory Spec2Isabelle
  imports Complex_Main "HOL-Library.AList" "HOL-Library.Char_ord" "HOL-Library.List_Lexorder"
begin

section \<open>Data model\<close>

text \<open>
  A shallow embedding of \<^verbatim>\<open>pylmdb/pylmdb.py\<close>: the classes \<^verbatim>\<open>Reader\<close> and
  \<^verbatim>\<open>Writer\<close> and the function \<^verbatim>\<open>merge_db\<close>.

  Byte strings and Python strings are both \<^typ>\<open>string\<close>; a Python \<^verbatim>\<open>str\<close> is
  represented by its UTF-8 bytes. A Python \<^verbatim>\<open>dict\<close> is an association list in
  insertion order, assignment \<^verbatim>\<open>d[k] = v\<close> is \<^const>\<open>AList.update\<close>; the keys of a
  dict are distinct, which theorems about arbitrary dicts state as a hypothesis.
\<close>

type_synonym bytes = string

type_synonym 'v dict = "(string \<times> 'v) list"

text \<open>
  A \<^verbatim>\<open>numpy.ndarray\<close>: element type, shape and the raw element bytes
  (\<^verbatim>\<open>tobytes()\<close>). Its \<^verbatim>\<open>nbytes\<close> is the length of the raw bytes.
\<close>

record ndarray =
  dtype :: string
  shape :: "nat list"
  buffer :: bytes

definition nbytes :: "ndarray \<Rightarrow> nat" where
  "nbytes a = length (buffer a)"

text \<open>
  The values a caller can pass in a sample: an array, or a scalar that is not an array
  (given by its element type and raw bytes).
\<close>

datatype pyobj = Ndarray ndarray | Scalar string bytes

type_synonym sample = "pyobj dict"

fun isinstance_ndarray :: "pyobj \<Rightarrow> bool" where
  "isinstance_ndarray (Ndarray a) = True"
| "isinstance_ndarray (Scalar t b) = False"

text \<open>
  Modelled from the spec: \<^verbatim>\<open>numpy.array(obj)\<close>, the coercion of a value to an array
  (external library); "scalars become zero-dimensional arrays", an array is returned as
  it is.
\<close>

fun np_array :: "pyobj \<Rightarrow> ndarray" where
  "np_array (Ndarray a) = a"
| "np_array (Scalar t b) = \<lparr>dtype = t, shape = [], buffer = b\<rparr>"

datatype value_error =
    Unsupported_type
  | Ram_gb_limit_exceeded
  | Index_not_below_size
  | Map_size_not_positive
  | Ram_limit_not_positive
  | Invalid_literal
  | Negative_len

datatype error =
    ValueError value_error
  | IndexError
  | TypeError
  | KeyError
  | AttributeError
  | MapFullError
  | OverflowError
  | SystemExit

section \<open>Codec\<close>

subsection \<open>Strings\<close>

text \<open>
  Modelled from the spec: \<^verbatim>\<open>encode_str\<close> and \<^verbatim>\<open>decode_str\<close> of
  \<^verbatim>\<open>pylmdb/tools.py\<close>, which is not among the sources: "UTF-8 round trip for metadata
  strings and key strings". On the UTF-8 representation of strings both are the
  identity; stored bytes that are not valid UTF-8 are outside the model.
\<close>

definition encode_str :: "string \<Rightarrow> bytes" where
  "encode_str s = s"

definition decode_str :: "bytes \<Rightarrow> string" where
  "decode_str b = b"

text \<open>
  Modelled from the spec: the constant \<^verbatim>\<open>NB_SAMPLES\<close> of \<^verbatim>\<open>pylmdb/tools.py\<close>, the
  "reserved key" that "holds the decimal string sample count". \<^verbatim>\<open>check_db_stats\<close> and
  \<^verbatim>\<open>merge_db\<close> spell the same key as the literal \<^verbatim>\<open>"nb_samples"\<close>.
\<close>

definition NB_SAMPLES :: string where
  "NB_SAMPLES = ''nb_samples''"

subsection \<open>Decimal rendering: \<^verbatim>\<open>str(n)\<close> and \<^verbatim>\<open>"{:010}".format(i)\<close>\<close>

definition digit_char :: "nat \<Rightarrow> char" where
  "digit_char d = ''0123456789'' ! d"

function str_nat :: "nat \<Rightarrow> string" where
  "str_nat n = (if n < 10 then [digit_char n]
                else str_nat (n div 10) @ [digit_char (n mod 10)])"
  by pat_completeness auto
termination
  by (relation "measure id") auto

declare str_nat.simps [simp del]

text \<open>Python's \<^verbatim>\<open>str\<close> on an \<^verbatim>\<open>int\<close>.\<close>

definition py_str :: "int \<Rightarrow> string" where
  "py_str i = (if i < 0 then CHR ''-'' # str_nat (nat (- i)) else str_nat (nat i))"

definition zfill :: "nat \<Rightarrow> string \<Rightarrow> string" where
  "zfill w s = replicate (w - length s) (CHR ''0'') @ s"

text \<open>
  The format specification \<^verbatim>\<open>010\<close>: zero padding to width 10, the padding placed
  after the sign; a number with more than 10 characters is not truncated.
\<close>

definition format_010 :: "int \<Rightarrow> string" where
  "format_010 i = (if i < 0 then CHR ''-'' # zfill 9 (str_nat (nat (- i)))
                   else zfill 10 (str_nat (nat i)))"

text \<open>The key of sample \<open>i\<close> in the data namespace.\<close>

definition data_key :: "int \<Rightarrow> bytes" where
  "data_key i = encode_str (format_010 i)"

text \<open>
  The \<open>w\<close> low decimal digits of \<open>n\<close>, most significant first; used to reason about
  \<^const>\<open>format_010\<close>.
\<close>

fun fixed_digits :: "nat \<Rightarrow> nat \<Rightarrow> string" where
  "fixed_digits 0 n = []"
| "fixed_digits (Suc w) n = fixed_digits w (n div 10) @ [digit_char (n mod 10)]"

subsection \<open>Decimal parsing: \<^verbatim>\<open>int(s)\<close>\<close>

text \<open>
  Python's \<^verbatim>\<open>int\<close> on a string, base 10: surrounding whitespace is stripped, one sign
  is allowed, then at least one digit, with single underscores allowed between
  digits. Anything else raises \<^verbatim>\<open>ValueError\<close>. Only ASCII is modelled (Python also
  accepts the decimal digits and spaces of other scripts), and no limit on the number
  of digits.
\<close>

definition py_isspace :: "char \<Rightarrow> bool" where
  "py_isspace c = (let n = (of_char c :: nat) in (9 \<le> n \<and> n \<le> 13) \<or> (28 \<le> n \<and> n \<le> 32))"

definition py_strip :: "string \<Rightarrow> string" where
  "py_strip s = rev (dropWhile py_isspace (rev (dropWhile py_isspace s)))"

definition is_digit :: "char \<Rightarrow> bool" where
  "is_digit c = (let n = (of_char c :: nat) in 48 \<le> n \<and> n \<le> 57)"

definition digit_val :: "char \<Rightarrow> nat" where
  "digit_val c = of_char c - 48"

text \<open>The flag says that the previous character was a digit.\<close>

fun parse_digits :: "bool \<Rightarrow> nat \<Rightarrow> string \<Rightarrow> nat option" where
  "parse_digits prev acc [] = (if prev then Some acc else None)"
| "parse_digits prev acc (c # cs) =
     (if is_digit c then parse_digits True (10 * acc + digit_val c) cs
      else if c = CHR ''_'' \<and> prev then parse_digits False acc cs
      else None)"

definition py_int :: "string \<Rightarrow> error + int" where
  "py_int s =
     (case py_strip s of
        [] \<Rightarrow> Inl (ValueError Invalid_literal)
      | c # cs \<Rightarrow>
          if c = CHR ''-'' then
            (case parse_digits False 0 cs of
               None \<Rightarrow> Inl (ValueError Invalid_literal)
             | Some n \<Rightarrow> Inr (- int n))
          else if c = CHR ''+'' then
            (case parse_digits False 0 cs of
               None \<Rightarrow> Inl (ValueError Invalid_literal)
             | Some n \<Rightarrow> Inr (int n))
          else
            (case parse_digits False 0 (c # cs) of
               None \<Rightarrow> Inl (ValueError Invalid_literal)
             | Some n \<Rightarrow> Inr (int n)))"

subsection \<open>Arrays\<close>

text \<open>
  The byte strings that \<^verbatim>\<open>msgpack.packb\<close> produces are represented by the objects they
  encode: the wire format belongs to the external codec. An inner blob is one packed
  array, an outer blob is the packed dict from field names to inner blobs.

  Modelled from the spec: \<^verbatim>\<open>encode_data\<close> and \<^verbatim>\<open>decode_data\<close> of
  \<^verbatim>\<open>pylmdb/tools.py\<close>, the hooks that make the inner blob "a self-describing array
  encoding (dtype + shape + raw element bytes)".
\<close>

datatype inner_blob = Packed_array string "nat list" bytes

type_synonym outer_blob = "inner_blob dict"

fun encode_data :: "ndarray \<Rightarrow> inner_blob" where
  "encode_data a = Packed_array (dtype a) (shape a) (buffer a)"

fun decode_data :: "inner_blob \<Rightarrow> ndarray" where
  "decode_data (Packed_array t sh b) = \<lparr>dtype = t, shape = sh, buffer = b\<rparr>"

section \<open>The store\<close>

text \<open>
  One LMDB environment: the two named databases and the declared map size in bytes.
  The stores are the ones this library writes, so every value of the data database is
  an outer blob.
\<close>

record lmdb_env =
  data_db :: "(bytes \<times> outer_blob) list"
  meta_db :: "(bytes \<times> bytes) list"
  map_size :: nat

text \<open>
  When the engine reports that the declared map size is exhausted is its own business.
  The operations take its verdict as a parameter \<open>full\<close>: \<open>full env'\<close> says that the
  write leading to the contents \<open>env'\<close> raises \<^verbatim>\<open>lmdb.MapFullError\<close>. Limits of the
  engine on the size of a key are not modelled.
\<close>

type_synonym engine = "lmdb_env \<Rightarrow> bool"

definition txn_put_data :: "engine \<Rightarrow> lmdb_env \<Rightarrow> bytes \<Rightarrow> outer_blob \<Rightarrow> error + lmdb_env" where
  "txn_put_data full env k v =
     (let env' = env\<lparr>data_db := AList.update k v (data_db env)\<rparr>
      in if full env' then Inl MapFullError else Inr env')"

definition txn_put_meta :: "engine \<Rightarrow> lmdb_env \<Rightarrow> bytes \<Rightarrow> bytes \<Rightarrow> error + lmdb_env" where
  "txn_put_meta full env k v =
     (let env' = env\<lparr>meta_db := AList.update k v (meta_db env)\<rparr>
      in if full env' then Inl MapFullError else Inr env')"

text \<open>A key argument that is "string or bytestring".\<close>

datatype key_arg = Str string | Bytes bytes

fun encode_key :: "key_arg \<Rightarrow> bytes" where
  "encode_key (Str key) = encode_str key"
| "encode_key (Bytes key) = key"

text \<open>The directory of a store that was never opened.\<close>

definition fresh_env :: lmdb_env where
  "fresh_env = \<lparr>data_db = [], meta_db = [], map_size = 0\<rparr>"

section \<open>Reader\<close>

record Reader =
  r_nb_samples :: int
  r_lmdb_env :: lmdb_env

text \<open>
  \<^verbatim>\<open>get_meta_str\<close>: \<^verbatim>\<open>txn.get\<close> gives \<^verbatim>\<open>None\<close> for an absent key, and \<^verbatim>\<open>str(None)\<close>
  is \<^verbatim>\<open>'None'\<close>.
\<close>

definition meta_get_str :: "lmdb_env \<Rightarrow> key_arg \<Rightarrow> string" where
  "meta_get_str env key =
     (case map_of (meta_db env) (encode_key key) of
        Some v \<Rightarrow> decode_str v
      | None \<Rightarrow> ''None'')"

definition get_meta_str :: "Reader \<Rightarrow> key_arg \<Rightarrow> string" where
  "get_meta_str r key = meta_get_str (r_lmdb_env r) key"

text \<open>
  \<^verbatim>\<open>Reader.__init__\<close>: the count is read once; \<^verbatim>\<open>except ValueError\<close> turns a count
  that \<^verbatim>\<open>int\<close> rejects into 0, any other error would propagate.
\<close>

definition Reader_init :: "lmdb_env \<Rightarrow> error + Reader" where
  "Reader_init env =
     (case py_int (meta_get_str env (Str NB_SAMPLES)) of
        Inr n \<Rightarrow> Inr \<lparr>r_nb_samples = n, r_lmdb_env = env\<rparr>
      | Inl (ValueError _) \<Rightarrow> Inr \<lparr>r_nb_samples = 0, r_lmdb_env = env\<rparr>
      | Inl e \<Rightarrow> Inl e)"

text \<open>
  \<^verbatim>\<open>get_meta_key_info\<close> returns a Python set; the model lists the keys in the order
  in which they are stored.
\<close>

definition get_meta_key_info :: "Reader \<Rightarrow> string list" where
  "get_meta_key_info r = map (\<lambda>(key, value). decode_str key) (meta_db (r_lmdb_env r))"

text \<open>
  The loop of \<^verbatim>\<open>get_sample\<close> over the fields of the outer blob. \<^verbatim>\<open>unpackb\<close> with
  \<^verbatim>\<open>raw=False\<close> gives \<^verbatim>\<open>str\<close> keys, so \<^verbatim>\<open>_k = str(k)\<close> is \<open>k\<close>; the lookup
  \<^verbatim>\<open>_obj[_k]\<close> raises \<^verbatim>\<open>KeyError\<close> on an absent key.
\<close>

fun decode_fields :: "outer_blob \<Rightarrow> string list \<Rightarrow> sample \<Rightarrow> error + sample" where
  "decode_fields pkg [] obj = Inr obj"
| "decode_fields pkg (k # ks) obj =
     (case map_of pkg k of
        None \<Rightarrow> Inl KeyError
      | Some b \<Rightarrow> decode_fields pkg ks (AList.update k (Ndarray (decode_data b)) obj))"

text \<open>
  \<^verbatim>\<open>get_sample\<close>: \<^verbatim>\<open>txn.get\<close> gives \<^verbatim>\<open>None\<close> where the data database has no entry, and
  \<^verbatim>\<open>msgpack.unpackb(None)\<close> raises \<^verbatim>\<open>TypeError\<close>.
\<close>

definition get_sample :: "Reader \<Rightarrow> int \<Rightarrow> error + sample" where
  "get_sample r i =
     (if 0 > i \<or> r_nb_samples r \<le> i then Inl IndexError
      else
        (case map_of (data_db (r_lmdb_env r)) (encode_str (format_010 i)) of
           None \<Rightarrow> Inl TypeError
         | Some pkg \<Rightarrow> decode_fields pkg (map fst pkg) []))"

text \<open>
  \<^verbatim>\<open>len(reader)\<close>: the built-in refuses a negative \<^verbatim>\<open>__len__\<close> and one that does not
  fit the index type (64 bits).
\<close>

definition len :: "Reader \<Rightarrow> error + int" where
  "len r =
     (if r_nb_samples r < 0 then Inl (ValueError Negative_len)
      else if r_nb_samples r > 2 ^ 63 - 1 then Inl OverflowError
      else Inr (r_nb_samples r))"

text \<open>\<^verbatim>\<open>__getitem__\<close> with an integer key (slices are not embedded).\<close>

definition getitem :: "Reader \<Rightarrow> int \<Rightarrow> error + sample" where
  "getitem r key =
     (case (if 0 > key then (case len r of Inl e \<Rightarrow> Inl e | Inr n \<Rightarrow> Inr (key + n))
            else Inr key) of
        Inl e \<Rightarrow> Inl e
      | Inr key' \<Rightarrow>
          if 0 > key' then Inl IndexError
          else
            (case len r of
               Inl e \<Rightarrow> Inl e
             | Inr n \<Rightarrow> if n \<le> key' then Inl IndexError else get_sample r key'))"

section \<open>Writer\<close>

text \<open>
  The \<^verbatim>\<open>float\<close> \<^verbatim>\<open>ram_gb_limit\<close> and the quotient \<^verbatim>\<open>gb_required / 10 ** 9\<close> are
  exact rationals (the rounding of the division is not modelled), and the sum of the
  \<^verbatim>\<open>nbytes\<close> is a natural number. \<^verbatim>\<open>db_stats\<close> is only assigned by
  \<^verbatim>\<open>check_db_stats\<close>; before that it is the empty string here.
\<close>

record Writer =
  w_map_size_limit :: int
  w_ram_gb_limit :: rat
  w_keys :: "string list"
  w_nb_samples :: int
  w_lmdb_env :: lmdb_env
  w_db_stats :: string

text \<open>
  \<^verbatim>\<open>check_db_stats\<close>: \<^verbatim>\<open>not _k\<close> holds for \<^verbatim>\<open>None\<close> and for the empty byte string;
  a \<^verbatim>\<open>ValueError\<close> of \<^verbatim>\<open>int\<close> is not caught.
\<close>

definition check_db_stats :: "Writer \<Rightarrow> error + Writer" where
  "check_db_stats w =
     (case map_of (meta_db (w_lmdb_env w)) (encode_str ''nb_samples'') of
        None \<Rightarrow> Inr (w\<lparr>w_db_stats := ''create_stats''\<rparr>)
      | Some v \<Rightarrow>
          if v = [] then Inr (w\<lparr>w_db_stats := ''create_stats''\<rparr>)
          else
            (case py_int (decode_str v) of
               Inl e \<Rightarrow> Inl e
             | Inr n \<Rightarrow> Inr (w\<lparr>w_nb_samples := n, w_db_stats := ''auto_update_stats''\<rparr>)))"

text \<open>
  \<^verbatim>\<open>Writer.__init__\<close> on the directory whose contents are \<open>env\<close>;
  \<^verbatim>\<open>map_size_limit <<= 20\<close> turns megabytes into bytes.
\<close>

definition Writer_init :: "lmdb_env \<Rightarrow> int \<Rightarrow> rat \<Rightarrow> error + Writer" where
  "Writer_init env map_size_limit ram_gb_limit =
     (if map_size_limit \<le> 0 then Inl (ValueError Map_size_not_positive)
      else if ram_gb_limit \<le> 0 then Inl (ValueError Ram_limit_not_positive)
      else check_db_stats
        \<lparr>w_map_size_limit = map_size_limit,
         w_ram_gb_limit = ram_gb_limit,
         w_keys = [],
         w_nb_samples = 0,
         w_lmdb_env = env\<lparr>map_size := nat (map_size_limit * 2 ^ 20)\<rparr>,
         w_db_stats = []\<rparr>)"

text \<open>
  A mutating method returns the error it raised, if any, and the writer as the call
  left it.

  \<^verbatim>\<open>set_meta_str\<close>: one write transaction on the metadata database; a
  \<^verbatim>\<open>MapFullError\<close> aborts it and propagates.
\<close>

definition set_meta_str :: "engine \<Rightarrow> Writer \<Rightarrow> key_arg \<Rightarrow> string \<Rightarrow> error option \<times> Writer" where
  "set_meta_str full w key string =
     (case txn_put_meta full (w_lmdb_env w) (encode_key key) (encode_str string) of
        Inl e \<Rightarrow> (Some e, w)
      | Inr env' \<Rightarrow> (None, w\<lparr>w_lmdb_env := env'\<rparr>))"

text \<open>
  The first loop of \<^verbatim>\<open>put_samples\<close> and of \<^verbatim>\<open>change_value\<close>: every value must be
  an array, and the sizes are added up.
\<close>

fun check_types :: "sample \<Rightarrow> nat \<Rightarrow> error + nat" where
  "check_types [] gb_required = Inr gb_required"
| "check_types ((key, value) # samples) gb_required =
     (case value of
        Scalar t b \<Rightarrow> Inl (ValueError Unsupported_type)
      | Ndarray a \<Rightarrow> check_types samples (gb_required + nbytes a))"

text \<open>
  The second loop of \<^verbatim>\<open>put_samples\<close> (with \<^verbatim>\<open>self.nb_samples\<close> for \<open>num_id\<close>) and of
  \<^verbatim>\<open>change_value\<close>, inside the write transaction \<open>txn\<close> on the data database. The
  source builds the key, packs \<^verbatim>\<open>msg_pkgs\<close> and calls \<^verbatim>\<open>txn.put\<close> inside the loop
  over the fields, once for each field.
\<close>

fun write_fields :: "engine \<Rightarrow> int \<Rightarrow> sample \<Rightarrow> outer_blob \<Rightarrow> lmdb_env \<Rightarrow> error + lmdb_env" where
  "write_fields full num_id [] msg_pkgs txn = Inr txn"
| "write_fields full num_id ((key, value) # samples) msg_pkgs txn =
     (let obj = (case value of Scalar t b \<Rightarrow> np_array value | Ndarray a \<Rightarrow> a);
          msg_pkgs' = AList.update key (encode_data obj) msg_pkgs;
          key' = encode_str (format_010 num_id);
          pkg = msg_pkgs'
      in case txn_put_data full txn key' pkg of
           Inl e \<Rightarrow> Inl e
         | Inr txn' \<Rightarrow> write_fields full num_id samples msg_pkgs' txn')"

text \<open>
  \<^verbatim>\<open>put_samples\<close>. A \<^verbatim>\<open>MapFullError\<close> inside the transaction aborts it and is raised
  again as \<^verbatim>\<open>AttributeError\<close>; otherwise the transaction commits, the counter is
  incremented and written to the metadata.
\<close>

definition put_samples :: "engine \<Rightarrow> Writer \<Rightarrow> sample \<Rightarrow> error option \<times> Writer" where
  "put_samples full w samples =
     (case check_types samples 0 of
        Inl e \<Rightarrow> (Some e, w)
      | Inr nb_total \<Rightarrow>
          let gb_required = (of_nat nb_total :: rat) / 10 ^ 9 in
          if w_ram_gb_limit w < gb_required then (Some (ValueError Ram_gb_limit_exceeded), w)
          else
            (case write_fields full (w_nb_samples w) samples [] (w_lmdb_env w) of
               Inl MapFullError \<Rightarrow> (Some AttributeError, w)
             | Inl e \<Rightarrow> (Some e, w)
             | Inr env' \<Rightarrow>
                 let w' = w\<lparr>w_lmdb_env := env', w_nb_samples := w_nb_samples w + 1\<rparr>
                 in set_meta_str full w' (Str NB_SAMPLES) (py_str (w_nb_samples w'))))"

text \<open>\<^verbatim>\<open>change_value\<close>: the same two loops, at the index given; nothing is caught.\<close>

definition change_value :: "engine \<Rightarrow> Writer \<Rightarrow> int \<Rightarrow> sample \<Rightarrow> error option \<times> Writer" where
  "change_value full w num_id samples =
     (case check_types samples 0 of
        Inl e \<Rightarrow> (Some e, w)
      | Inr nb_total \<Rightarrow>
          let gb_required = (of_nat nb_total :: rat) / 10 ^ 9 in
          if w_ram_gb_limit w < gb_required then (Some (ValueError Ram_gb_limit_exceeded), w)
          else
            (case write_fields full num_id samples [] (w_lmdb_env w) of
               Inl e \<Rightarrow> (Some e, w)
             | Inr env' \<Rightarrow> (None, w\<lparr>w_lmdb_env := env'\<rparr>)))"

text \<open>\<^verbatim>\<open>str.lower\<close>, on ASCII letters.\<close>

definition py_lower :: "string \<Rightarrow> string" where
  "py_lower s =
     map (\<lambda>c. case map_of (zip ''ABCDEFGHIJKLMNOPQRSTUVWXYZ'' ''abcdefghijklmnopqrstuvwxyz'') c of
                 Some d \<Rightarrow> d
               | None \<Rightarrow> c) s"

text \<open>
  \<^verbatim>\<open>change_db_value\<close>. \<open>ok\<close> is the line that \<^verbatim>\<open>input\<close> returns, read only in safe
  mode; \<^verbatim>\<open>sys.exit(0)\<close> is the error \<^const>\<open>SystemExit\<close>.
\<close>

definition change_db_value ::
  "engine \<Rightarrow> Writer \<Rightarrow> int \<Rightarrow> sample \<Rightarrow> bool \<Rightarrow> string \<Rightarrow> error option \<times> Writer" where
  "change_db_value full w key value safe_model ok =
     (let num_size = w_nb_samples w in
      if key < num_size then
        (if safe_model \<and> py_lower (py_strip ok) \<noteq> ''yes'' then (Some SystemExit, w)
         else change_value full w key value)
      else (Some (ValueError Index_not_below_size), w))"

text \<open>
  \<^verbatim>\<open>Writer.close\<close>: the count is written once more, then the environment is closed;
  the result is the contents of the directory.
\<close>

definition close :: "engine \<Rightarrow> Writer \<Rightarrow> error option \<times> lmdb_env" where
  "close full w =
     (case set_meta_str full w (Str NB_SAMPLES) (py_str (w_nb_samples w)) of
        (e, w') \<Rightarrow> (e, w_lmdb_env w'))"

section \<open>Merge\<close>

text \<open>The loop \<^verbatim>\<open>for i in range(db.nb_samples): merge_db.put_samples(db[i])\<close>.\<close>

fun copy_samples :: "engine \<Rightarrow> Reader \<Rightarrow> int list \<Rightarrow> Writer \<Rightarrow> error option \<times> Writer" where
  "copy_samples full db [] w = (None, w)"
| "copy_samples full db (i # is) w =
     (case getitem db i of
        Inl e \<Rightarrow> (Some e, w)
      | Inr s \<Rightarrow>
          (case put_samples full w s of
             (Some e, w') \<Rightarrow> (Some e, w')
           | (None, w') \<Rightarrow> copy_samples full db is w'))"

text \<open>
  The loop over \<^verbatim>\<open>db.get_meta_key_info()\<close> that copies every metadata entry but the
  sample count.
\<close>

fun copy_meta :: "engine \<Rightarrow> Reader \<Rightarrow> string list \<Rightarrow> Writer \<Rightarrow> error option \<times> Writer" where
  "copy_meta full db [] w = (None, w)"
| "copy_meta full db (i # is) w =
     (if i \<noteq> ''nb_samples'' then
        (case set_meta_str full w (Str i) (get_meta_str db (Str i)) of
           (Some e, w') \<Rightarrow> (Some e, w')
         | (None, w') \<Rightarrow> copy_meta full db is w')
      else copy_meta full db is w)"

definition copy_db :: "engine \<Rightarrow> Reader \<Rightarrow> Writer \<Rightarrow> error option \<times> Writer" where
  "copy_db full db w =
     (case copy_samples full db [0 .. r_nb_samples db - 1] w of
        (Some e, w') \<Rightarrow> (Some e, w')
      | (None, w') \<Rightarrow> copy_meta full db (get_meta_key_info db) w')"

text \<open>
  \<^verbatim>\<open>merge_db\<close> on three different directories with the contents \<open>merge_env\<close>, \<open>A_env\<close>
  and \<open>B_env\<close>; the result is the contents of the target directory. An error leaves
  the target as it was written so far.
\<close>

definition merge_db :: "engine \<Rightarrow> lmdb_env \<Rightarrow> lmdb_env \<Rightarrow> lmdb_env \<Rightarrow> int \<Rightarrow> error option \<times> lmdb_env" where
  "merge_db full merge_env A_env B_env map_size_limit =
     (case Writer_init merge_env map_size_limit 3 of
        Inl e \<Rightarrow> (Some e, merge_env)
      | Inr w \<Rightarrow>
          (case Reader_init A_env of
             Inl e \<Rightarrow> (Some e, w_lmdb_env w)
           | Inr A_db \<Rightarrow>
               (case Reader_init B_env of
                  Inl e \<Rightarrow> (Some e, w_lmdb_env w)
                | Inr B_db \<Rightarrow>
                    (case copy_db full A_db w of
                       (Some e, w') \<Rightarrow> (Some e, w_lmdb_env w')
                     | (None, w') \<Rightarrow>
                         (case copy_db full B_db w' of
                            (Some e, w'') \<Rightarrow> (Some e, w_lmdb_env w'')
                          | (None, w'') \<Rightarrow> close full w'')))))"

section \<open>Decimal rendering and parsing\<close>

lemma str_nat_small: "n < 10 \<Longrightarrow> str_nat n = [digit_char n]"
  by (simp add: str_nat.simps)

lemma str_nat_step: "\<not> n < 10 \<Longrightarrow> str_nat n = str_nat (n div 10) @ [digit_char (n mod 10)]"
  by (simp add: str_nat.simps[of n])

lemma length_fixed_digits [simp]: "length (fixed_digits w n) = w"
  by (induction w arbitrary: n) auto

lemma fixed_digits_zero: "fixed_digits w 0 = replicate w (CHR ''0'')"
  by (induction w) (auto simp: digit_char_def replicate_append_same)

lemma digit_char_in_digits: "d < 10 \<Longrightarrow> digit_char d \<in> set ''0123456789''"
  unfolding digit_char_def by (rule nth_mem) simp

lemma set_fixed_digits: "set (fixed_digits w n) \<subseteq> set ''0123456789''"
proof (induction w arbitrary: n)
  case 0
  show ?case by simp
next
  case (Suc w)
  have "digit_char (n mod 10) \<in> set ''0123456789''"
    by (rule digit_char_in_digits) simp
  with Suc show ?case by simp
qed

lemma length_str_nat_le: "n < 10 ^ w \<Longrightarrow> 0 < w \<Longrightarrow> length (str_nat n) \<le> w"
proof (induction n arbitrary: w rule: str_nat.induct)
  case (1 n)
  show ?case
  proof (cases "n < 10")
    case True
    then show ?thesis using 1(3) by (simp add: str_nat_small)
  next
    case False
    obtain v where w: "w = Suc v" using 1(3) by (cases w) auto
    have "v \<noteq> 0" using False 1(2) w by (cases v) auto
    moreover have "n div 10 < 10 ^ v" using 1(2) w by (simp add: less_mult_imp_div_less)
    ultimately have "length (str_nat (n div 10)) \<le> v" using 1(1)[OF False, of v] by simp
    then show ?thesis using False w by (simp add: str_nat_step)
  qed
qed

lemma zfill_str_nat: "n < 10 ^ w \<Longrightarrow> 0 < w \<Longrightarrow> zfill w (str_nat n) = fixed_digits w n"
proof (induction n arbitrary: w rule: str_nat.induct)
  case (1 n)
  obtain v where w: "w = Suc v" using 1(3) by (cases w) auto
  show ?case
  proof (cases "n < 10")
    case True
    then have "fixed_digits v (n div 10) = replicate v (CHR ''0'')"
      by (simp add: fixed_digits_zero)
    then show ?thesis using True w by (simp add: str_nat_small zfill_def)
  next
    case False
    have v: "0 < v" using False 1(2) w by (cases v) auto
    have lt: "n div 10 < 10 ^ v" using 1(2) w by (simp add: less_mult_imp_div_less)
    have ih: "zfill v (str_nat (n div 10)) = fixed_digits v (n div 10)"
      using 1(1)[OF False lt v] .
    have len: "length (str_nat (n div 10)) \<le> v" using length_str_nat_le[OF lt v] .
    have "zfill w (str_nat n) = zfill v (str_nat (n div 10)) @ [digit_char (n mod 10)]"
      using False w len by (simp add: str_nat_step zfill_def Suc_diff_le)
    then show ?thesis using ih w by simp
  qed
qed

lemma digit_cases:
  "d < 10 \<Longrightarrow> d = 0 \<or> d = 1 \<or> d = 2 \<or> d = 3 \<or> d = 4 \<or> d = 5 \<or> d = 6 \<or> d = 7 \<or> d = 8 \<or> d = (9::nat)"
  by arith

lemma of_char_digit_char: "d < 10 \<Longrightarrow> of_char (digit_char d) = 48 + d"
  by (drule digit_cases) (elim disjE; simp add: digit_char_def)

lemma digit_char_less: "a < b \<Longrightarrow> b < 10 \<Longrightarrow> digit_char a < digit_char b"
  by (simp add: less_char_def of_char_digit_char)

lemma div_mod_less_cases:
  assumes "(n::nat) < m"
  shows "n div 10 < m div 10 \<or> (n div 10 = m div 10 \<and> n mod 10 < m mod 10)"
proof (cases "n div 10 = m div 10")
  case True
  have "10 * (n div 10) + n mod 10 < 10 * (m div 10) + m mod 10"
    using assms by (simp only: mult_div_mod_eq)
  then have "n mod 10 < m mod 10"
    unfolding True by (simp only: nat_add_left_cancel_less)
  with True show ?thesis by simp
next
  case False
  have "n div 10 \<le> m div 10"
    using assms by (intro div_le_mono less_imp_le)
  with False show ?thesis by simp
qed

lemma fixed_digits_less: "n < m \<Longrightarrow> m < 10 ^ w \<Longrightarrow> fixed_digits w n < fixed_digits w m"
proof (induction w arbitrary: n m)
  case 0
  then show ?case by simp
next
  case (Suc w)
  have m: "m div 10 < 10 ^ w" using Suc.prems by (simp add: less_mult_imp_div_less)
  consider (lt) "n div 10 < m div 10" | (eq) "n div 10 = m div 10" "n mod 10 < m mod 10"
    using div_mod_less_cases[OF Suc.prems(1)] by blast
  then show ?case
  proof cases
    case lt
    have "fixed_digits w (n div 10) < fixed_digits w (m div 10)" using Suc.IH[OF lt m] .
    then show ?thesis
      by (simp add: list_less_def lexord_sufI)
  next
    case eq
    have "digit_char (n mod 10) < digit_char (m mod 10)"
      using eq(2) by (intro digit_char_less) auto
    then show ?thesis using eq(1)
      by (simp add: list_less_def lexord_append_leftI)
  qed
qed

lemma format_010_fixed: "0 \<le> i \<Longrightarrow> i < 10 ^ 10 \<Longrightarrow> format_010 i = fixed_digits 10 (nat i)"
proof -
  assume i: "0 \<le> i" "i < 10 ^ 10"
  then have "nat i < 10 ^ 10" by (simp add: nat_less_iff)
  then have "zfill 10 (str_nat (nat i)) = fixed_digits 10 (nat i)"
    by (rule zfill_str_nat) simp
  with i show ?thesis by (simp add: format_010_def)
qed

text \<open>
  C9: for sample indices \<open>0 \<le> i < j < 10^10\<close> the keys of the data namespace have exactly
  10 characters, all of them ASCII digits, the keys of \<open>i\<close> and \<open>j\<close> differ, and the key
  of \<open>i\<close> is below the key of \<open>j\<close> in the lexicographic order of bytes.
\<close>

theorem data_key_order:
  assumes "0 \<le> i" and "i < j" and "j < 10 ^ 10"
  shows "length (data_key i) = 10 \<and> length (data_key j) = 10
    \<and> set (data_key i) \<subseteq> set ''0123456789'' \<and> set (data_key j) \<subseteq> set ''0123456789''
    \<and> data_key i \<noteq> data_key j \<and> data_key i < data_key j"
proof -
  have ki: "data_key i = fixed_digits 10 (nat i)"
    using assms by (simp add: data_key_def encode_str_def format_010_fixed)
  have kj: "data_key j = fixed_digits 10 (nat j)"
    using assms by (simp add: data_key_def encode_str_def format_010_fixed)
  have "nat i < nat j" "nat j < 10 ^ 10" using assms by (simp_all add: nat_less_iff)
  then have lt: "fixed_digits 10 (nat i) < fixed_digits 10 (nat j)"
    by (rule fixed_digits_less)
  then have ne: "fixed_digits 10 (nat i) \<noteq> fixed_digits 10 (nat j)" by simp
  have si: "set (fixed_digits 10 (nat i)) \<subseteq> set ''0123456789''" by (rule set_fixed_digits)
  have sj: "set (fixed_digits 10 (nat j)) \<subseteq> set ''0123456789''" by (rule set_fixed_digits)
  show ?thesis unfolding ki kj by (intro conjI length_fixed_digits si sj ne lt)
qed

theorem data_key_order_witness:
  "(0::int) \<le> 9 \<and> (9::int) < 10 \<and> (10::int) < 10 ^ 10
   \<and> data_key 9 = ''0000000009'' \<and> data_key 10 = ''0000000010''
   \<and> length (data_key 9) = 10 \<and> data_key 9 \<noteq> data_key 10 \<and> data_key 9 < data_key 10"
proof -
  have k9: "data_key 9 = ''0000000009''" by code_simp
  have k10: "data_key 10 = ''0000000010''" by code_simp
  have "length (data_key 9) = 10 \<and> data_key 9 \<noteq> data_key 10 \<and> data_key 9 < data_key 10"
    using data_key_order[of 9 10] by simp
  then show ?thesis by (simp add: k9 k10)
qed

end
